theory Spec2Isabelle
  imports Main "HOL-Library.Word"
begin

section \<open>JavaScript strings and values\<close>

text \<open>
  A JavaScript string is a sequence of UTF-16 code units. The literals of
  \<^verbatim>\<open>matrix-scraper.js\<close> that matter here are ASCII; \<open>js\<close> turns an ASCII
  literal into its code units.
\<close>

type_synonym jsstring = "16 word list"

definition js :: "string \<Rightarrow> jsstring" where
  "js s = map (\<lambda>c. of_nat (of_char c)) s"

text \<open>
  \<^verbatim>\<open>String.prototype.trim\<close> is a built-in of the runtime, not code of the
  repository. ECMAScript defines it as removing leading and trailing code
  units that are WhiteSpace (TAB, VT, FF, SP, NBSP, ZWNBSP and the other
  space separators) or LineTerminator (LF, CR, LS, PS).
\<close>

definition isWhiteSpace :: "16 word \<Rightarrow> bool" where
  "isWhiteSpace c =
     (c = 0x0009 \<or> c = 0x000A \<or> c = 0x000B \<or> c = 0x000C \<or> c = 0x000D \<or>
      c = 0x0020 \<or> c = 0x00A0 \<or> c = 0x1680 \<or>
      (0x2000 \<le> c \<and> c \<le> 0x200A) \<or>
      c = 0x2028 \<or> c = 0x2029 \<or> c = 0x202F \<or> c = 0x205F \<or>
      c = 0x3000 \<or> c = 0xFEFF)"

definition trimStart :: "jsstring \<Rightarrow> jsstring" where
  "trimStart s = dropWhile isWhiteSpace s"

definition trimEnd :: "jsstring \<Rightarrow> jsstring" where
  "trimEnd s = rev (dropWhile isWhiteSpace (rev s))"

definition trim :: "jsstring \<Rightarrow> jsstring" where
  "trim s = trimEnd (trimStart s)"

section \<open>The DOM\<close>

text \<open>
  A node of the page: the document, an element with its local name (lower
  case in an HTML document), its attributes and its children, a text node or
  a comment.
\<close>

datatype node =
    Document "node list"
  | Element jsstring "(jsstring \<times> jsstring) list" "node list"
  | Text jsstring
  | Comment jsstring

fun isElement :: "node \<Rightarrow> bool" where
  "isElement (Element n as cs) = True"
| "isElement v = False"

fun localName :: "node \<Rightarrow> jsstring option" where
  "localName (Element n as cs) = Some n"
| "localName v = None"

fun getAttribute :: "node \<Rightarrow> jsstring \<Rightarrow> jsstring option" where
  "getAttribute (Element n as cs) a = map_of as a"
| "getAttribute v a = None"

text \<open>The descendants of a node in tree order (the node itself excluded).\<close>

fun descendants :: "node \<Rightarrow> node list" where
  "descendants (Document cs) = concat (map (\<lambda>c. c # descendants c) cs)"
| "descendants (Element n as cs) = concat (map (\<lambda>c. c # descendants c) cs)"
| "descendants (Text d) = []"
| "descendants (Comment d) = []"

text \<open>
  The text of the descendant text nodes, concatenated in tree order: what
  \<^verbatim>\<open>textContent\<close> returns for an element.
\<close>

fun descendantText :: "node \<Rightarrow> jsstring" where
  "descendantText (Document cs) = concat (map descendantText cs)"
| "descendantText (Element n as cs) = concat (map descendantText cs)"
| "descendantText (Text d) = d"
| "descendantText (Comment d) = []"

subsection \<open>Selectors\<close>

text \<open>
  The two selectors of the script: a type selector (\<^verbatim>\<open>td\<close>) and a type
  selector with an attribute-substring condition
  (\<^verbatim>\<open>tr[class*="SearchResult"]\<close>).
\<close>

datatype selector =
    TypeSel jsstring
  | TypeAttrContains jsstring jsstring jsstring

fun containsSub :: "'a list \<Rightarrow> 'a list \<Rightarrow> bool" where
  "containsSub [] sub = (sub = [])"
| "containsSub (x # xs) sub = (take (length sub) (x # xs) = sub \<or> containsSub xs sub)"

fun matches :: "selector \<Rightarrow> node \<Rightarrow> bool" where
  "matches (TypeSel t) nd = (localName nd = Some t)"
| "matches (TypeAttrContains t a v) nd =
     (localName nd = Some t \<and>
      (case getAttribute nd a of
         None \<Rightarrow> False
       | Some w \<Rightarrow> v \<noteq> [] \<and> containsSub w v))"

definition querySelectorAll :: "node \<Rightarrow> selector \<Rightarrow> node list" where
  "querySelectorAll scope sel = filter (matches sel) (descendants scope)"

section \<open>Values, errors and the guarded cell access\<close>

datatype error =
    TypeError
  | LaunchError
  | NavigationError
  | TimeoutError
  | TargetClosedError

datatype jsval =
    Undefined
  | Null
  | Str jsstring
  | NodeRef node

type_synonym jsobject = "(string \<times> jsval) list"

definition bindE :: "error + 'a \<Rightarrow> ('a \<Rightarrow> error + 'b) \<Rightarrow> error + 'b" where
  "bindE m f = (case m of Inl e \<Rightarrow> Inl e | Inr v \<Rightarrow> f v)"

text \<open>\<^verbatim>\<open>node.textContent\<close>: null for a document, the data of a text node or comment,
  the concatenated descendant text of an element.\<close>

fun textContent :: "node \<Rightarrow> jsval" where
  "textContent (Document cs) = Null"
| "textContent (Element n as cs) = Str (descendantText (Element n as cs))"
| "textContent (Text d) = Str d"
| "textContent (Comment d) = Str d"

text \<open>\<^verbatim>\<open>cells[i]\<close> on a NodeList: undefined out of range.\<close>

definition item :: "node list \<Rightarrow> nat \<Rightarrow> jsval" where
  "item cells i = (if i < length cells then NodeRef (cells ! i) else Undefined)"

text \<open>\<^verbatim>\<open>v?.textContent\<close>: undefined when \<open>v\<close> is null or undefined; a string has
  no such property.\<close>

fun optTextContent :: "jsval \<Rightarrow> error + jsval" where
  "optTextContent Undefined = Inr Undefined"
| "optTextContent Null = Inr Undefined"
| "optTextContent (Str s) = Inr Undefined"
| "optTextContent (NodeRef nd) = Inr (textContent nd)"

text \<open>\<^verbatim>\<open>v?.trim()\<close>: undefined when \<open>v\<close> is null or undefined; calling it on a
  value with no \<^verbatim>\<open>trim\<close> method throws a TypeError.\<close>

fun optTrim :: "jsval \<Rightarrow> error + jsval" where
  "optTrim Undefined = Inr Undefined"
| "optTrim Null = Inr Undefined"
| "optTrim (Str s) = Inr (Str (trim s))"
| "optTrim (NodeRef nd) = Inl TypeError"

fun truthy :: "jsval \<Rightarrow> bool" where
  "truthy Undefined = False"
| "truthy Null = False"
| "truthy (Str s) = (s \<noteq> [])"
| "truthy (NodeRef nd) = True"

text \<open>\<^verbatim>\<open>a || b\<close>\<close>

definition orElse :: "jsval \<Rightarrow> jsval \<Rightarrow> jsval" where
  "orElse a b = (if truthy a then a else b)"

text \<open>\<^verbatim>\<open>cells[i]?.textContent?.trim() || ''\<close>, the expression of lines 46 to 51.\<close>

definition cellField :: "node list \<Rightarrow> nat \<Rightarrow> error + jsval" where
  "cellField cells i =
     bindE (optTextContent (item cells i)) (\<lambda>t.
     bindE (optTrim t) (\<lambda>s.
     Inr (orElse s (Str []))))"

section \<open>The row extractor (lines 38 to 57)\<close>

definition resultRowSelector :: selector where
  "resultRowSelector = TypeAttrContains (js ''tr'') (js ''class'') (js ''SearchResult'')"

definition tdSelector :: selector where
  "tdSelector = TypeSel (js ''td'')"

text \<open>The object literal of lines 45 to 52; its properties are evaluated in order.\<close>

definition rowObject :: "node list \<Rightarrow> error + jsobject" where
  "rowObject cells =
     bindE (cellField cells 0) (\<lambda>v0.
     bindE (cellField cells 1) (\<lambda>v1.
     bindE (cellField cells 2) (\<lambda>v2.
     bindE (cellField cells 3) (\<lambda>v3.
     bindE (cellField cells 4) (\<lambda>v4.
     bindE (cellField cells 5) (\<lambda>v5.
     Inr [(''mlsNumber'', v0), (''address'', v1), (''price'', v2),
          (''beds'', v3), (''baths'', v4), (''sqft'', v5)]))))))"

text \<open>The callback of \<^verbatim>\<open>rows.forEach\<close>; \<open>data\<close> is the array it pushes to.\<close>

definition rowCallback :: "node \<Rightarrow> jsobject list \<Rightarrow> error + jsobject list" where
  "rowCallback row data =
     (let cells = querySelectorAll row tdSelector in
      if length cells > 0
      then bindE (rowObject cells) (\<lambda>obj. Inr (data @ [obj]))
      else Inr data)"

fun forEach :: "'a list \<Rightarrow> ('a \<Rightarrow> 's \<Rightarrow> error + 's) \<Rightarrow> 's \<Rightarrow> error + 's" where
  "forEach [] f s = Inr s"
| "forEach (x # xs) f s = bindE (f x s) (forEach xs f)"

definition rowExtractor :: "node \<Rightarrow> error + jsobject list" where
  "rowExtractor document =
     (let rows = querySelectorAll document resultRowSelector in
      forEach rows rowCallback [])"

section \<open>The script (lines 3 to 69)\<close>

text \<open>
  What the script does to the outside world, in order: console output and
  calls to the browser automation library. The emoji of the console messages
  are left out; each message is named by its text.
\<close>

datatype message =
    Starting
  | GoingToLogin
  | EnterCredentials
  | ThirtySecondsToLogIn
  | LookingForSearch
  | NavigateManually
  | TwentySeconds
  | ExtractingData
  | Found nat
  | SampleData "jsobject list"
  | KeepingOpen

datatype event =
    ConsoleLog message
  | ConsoleError error
  | Launch bool nat
  | NewPage
  | Goto string
  | WaitForSelector string nat
  | WaitForTimeout nat
  | Evaluate
  | Close

text \<open>
  The outside world of one run: for each awaited call of the library, whether
  it rejects (and with what), and the document the page holds when
  \<^verbatim>\<open>page.evaluate\<close> runs.
\<close>

record world =
  launchOutcome :: "error option"
  newPageOutcome :: "error option"
  gotoOutcome :: "error option"
  waitForSelectorOutcome :: "error option"
  loginWaitOutcome :: "error option"
  searchWaitOutcome :: "error option"
  evaluateOutcome :: "error option"
  pageDocument :: node
  cleanupWaitOutcome :: "error option"
  closeOutcome :: "error option"

text \<open>A step either returns a value or throws; it appends to the trace of events.\<close>

type_synonym 'a io = "event list \<Rightarrow> (error + 'a) \<times> event list"

definition bindIO :: "'a io \<Rightarrow> ('a \<Rightarrow> 'b io) \<Rightarrow> 'b io" where
  "bindIO m f = (\<lambda>t. case m t of (Inl e, t') \<Rightarrow> (Inl e, t') | (Inr v, t') \<Rightarrow> f v t')"

definition consoleLog :: "message \<Rightarrow> unit io" where
  "consoleLog m = (\<lambda>t. (Inr (), t @ [ConsoleLog m]))"

definition consoleError :: "error \<Rightarrow> unit io" where
  "consoleError e = (\<lambda>t. (Inr (), t @ [ConsoleError e]))"

text \<open>An awaited library call: the call is made, then the promise settles.\<close>

definition await :: "event \<Rightarrow> error option \<Rightarrow> unit io" where
  "await ev outcome =
     (\<lambda>t. (case outcome of None \<Rightarrow> Inr () | Some e \<Rightarrow> Inl e, t @ [ev]))"

text \<open>
  \<^verbatim>\<open>await page.evaluate(...)\<close>: the call can reject by itself; otherwise the
  function of lines 38 to 57 runs in the page and its result, or what it
  throws, comes back.
\<close>

definition evaluate :: "world \<Rightarrow> (jsobject list) io" where
  "evaluate w =
     (\<lambda>t. (case evaluateOutcome w of
             Some e \<Rightarrow> Inl e
           | None \<Rightarrow> rowExtractor (pageDocument w), t @ [Evaluate]))"

text \<open>
  \<^verbatim>\<open>try { body } catch (error) { handler } finally { fin }\<close>: the handler runs
  if the body throws, the finally block runs in every case, and what the
  finally block throws replaces the result.
\<close>

definition tryCatchFinally :: "unit io \<Rightarrow> (error \<Rightarrow> unit io) \<Rightarrow> unit io \<Rightarrow> unit io" where
  "tryCatchFinally body handler fin =
     (\<lambda>t. case body t of (r1, t1) \<Rightarrow>
        (case (case r1 of Inl e \<Rightarrow> handler e t1 | Inr v \<Rightarrow> (Inr v, t1)) of (r2, t2) \<Rightarrow>
           (case fin t2 of (Inl e, t3) \<Rightarrow> (Inl e, t3) | (Inr v, t3) \<Rightarrow> (r2, t3))))"

definition loginUrl :: string where
  "loginUrl = ''https://matrix.southfloridamls.com/Matrix/Default.aspx''"

text \<open>Lines 14 to 60.\<close>

definition tryBody :: "world \<Rightarrow> unit io" where
  "tryBody w =
     bindIO (consoleLog GoingToLogin) (\<lambda>_.
     bindIO (await (Goto loginUrl) (gotoOutcome w)) (\<lambda>_.
     bindIO (await (WaitForSelector ''#Username'' 10000) (waitForSelectorOutcome w)) (\<lambda>_.
     bindIO (consoleLog EnterCredentials) (\<lambda>_.
     bindIO (consoleLog ThirtySecondsToLogIn) (\<lambda>_.
     bindIO (await (WaitForTimeout 30000) (loginWaitOutcome w)) (\<lambda>_.
     bindIO (consoleLog LookingForSearch) (\<lambda>_.
     bindIO (consoleLog NavigateManually) (\<lambda>_.
     bindIO (consoleLog TwentySeconds) (\<lambda>_.
     bindIO (await (WaitForTimeout 20000) (searchWaitOutcome w)) (\<lambda>_.
     bindIO (consoleLog ExtractingData) (\<lambda>_.
     bindIO (evaluate w) (\<lambda>properties.
     bindIO (consoleLog (Found (length properties))) (\<lambda>_.
     consoleLog (SampleData (take 3 properties)))))))))))))))"

text \<open>Lines 65 to 67.\<close>

definition finallyBlock :: "world \<Rightarrow> unit io" where
  "finallyBlock w =
     bindIO (consoleLog KeepingOpen) (\<lambda>_.
     bindIO (await (WaitForTimeout 30000) (cleanupWaitOutcome w)) (\<lambda>_.
     await Close (closeOutcome w)))"

definition scrapeMatrixMLS :: "world \<Rightarrow> (error + unit) \<times> event list" where
  "scrapeMatrixMLS w =
     bindIO (consoleLog Starting) (\<lambda>_.
     bindIO (await (Launch False 1000) (launchOutcome w)) (\<lambda>_.
     bindIO (await NewPage (newPageOutcome w)) (\<lambda>_.
     tryCatchFinally (tryBody w) consoleError (finallyBlock w)))) []"

text \<open>The events of a run.\<close>

definition trace :: "world \<Rightarrow> event list" where
  "trace w = snd (scrapeMatrixMLS w)"

section \<open>Example pages and runs\<close>

definition exampleCell :: "string \<Rightarrow> node" where
  "exampleCell t = Element (js ''td'') [] [Text (js t)]"

text \<open>A result row with the six cells of the specification's first example.\<close>

definition exampleRow :: node where
  "exampleRow =
     Element (js ''tr'') [(js ''class'', js ''d1m SearchResultRow'')]
       (map exampleCell [''M123'', ''1 Main St'', ''$500,000'', ''3'', ''2'', ''1500''])"

text \<open>A result row with two cells; the text of the first has a space on each side.\<close>

definition paddedRow :: node where
  "paddedRow =
     Element (js ''tr'') [(js ''class'', js ''SearchResult'')]
       [exampleCell '' M1 '', exampleCell ''1 Main St'']"

text \<open>A result row with a header cell and no \<^verbatim>\<open>td\<close>.\<close>

definition cellLessRow :: node where
  "cellLessRow =
     Element (js ''tr'') [(js ''class'', js ''SearchResultHeader'')]
       [Element (js ''th'') [] [Text (js ''MLS #'')]]"


definition examplePage :: node where
  "examplePage =
     Document [Element (js ''table'') [] [exampleRow, cellLessRow, paddedRow]]"


text \<open>A world in which every call succeeds, and worlds in which one call rejects.\<close>

definition quietWorld :: world where
  "quietWorld =
     \<lparr>launchOutcome = None, newPageOutcome = None, gotoOutcome = None,
      waitForSelectorOutcome = None, loginWaitOutcome = None, searchWaitOutcome = None,
      evaluateOutcome = None, pageDocument = examplePage,
      cleanupWaitOutcome = None, closeOutcome = None\<rparr>"

definition extractionFailsWorld :: world where
  "extractionFailsWorld = quietWorld\<lparr>evaluateOutcome := Some TargetClosedError\<rparr>"

definition newPageFailsWorld :: world where
  "newPageFailsWorld = quietWorld\<lparr>newPageOutcome := Some TargetClosedError\<rparr>"

definition cleanupWaitFailsWorld :: world where
  "cleanupWaitFailsWorld = quietWorld\<lparr>cleanupWaitOutcome := Some TargetClosedError\<rparr>"

subsection \<open>Kinds of events\<close>

text \<open>A wait is a call that suspends the script: for a selector or for a timer.\<close>

fun isWait :: "event \<Rightarrow> bool" where
  "isWait (WaitForSelector sel ms) = True"
| "isWait (WaitForTimeout ms) = True"
| "isWait ev = False"

fun isTimer :: "event \<Rightarrow> bool" where
  "isTimer (WaitForTimeout ms) = True"
| "isTimer ev = False"

fun isConsoleError :: "event \<Rightarrow> bool" where
  "isConsoleError (ConsoleError e) = True"
| "isConsoleError ev = False"

text \<open>The two lines that report records: the count and the sample (lines 59 and 60).\<close>

fun isReport :: "event \<Rightarrow> bool" where
  "isReport (ConsoleLog (Found n)) = True"
| "isReport (ConsoleLog (SampleData recs)) = True"
| "isReport ev = False"

section \<open>Properties of the cell access\<close>

lemma bindE_Inr: "bindE (Inr v) f = f v"
  by (simp add: bindE_def)

lemma cellField_absent: "length cells \<le> i \<Longrightarrow> cellField cells i = Inr (Str [])"
  by (simp add: cellField_def item_def bindE_Inr orElse_def)

lemma cellField_present:
  assumes "i < length cells"
  shows "cellField cells i =
           Inr (case textContent (cells ! i) of Str s \<Rightarrow> Str (trim s) | v \<Rightarrow> Str [])"
  using assms
  by (cases "cells ! i") (simp_all add: cellField_def item_def bindE_Inr orElse_def)

lemma cellField_string: "\<exists>s. cellField cells i = Inr (Str s)"
proof (cases "i < length cells")
  case True
  then show ?thesis
    by (cases "textContent (cells ! i)") (simp_all add: cellField_present)
next
  case False
  then show ?thesis by (simp add: cellField_absent)
qed

lemma rowObject_fields:
  "\<exists>s0 s1 s2 s3 s4 s5.
     cellField cells 0 = Inr (Str s0) \<and> cellField cells 1 = Inr (Str s1) \<and>
     cellField cells 2 = Inr (Str s2) \<and> cellField cells 3 = Inr (Str s3) \<and>
     cellField cells 4 = Inr (Str s4) \<and> cellField cells 5 = Inr (Str s5) \<and>
     rowObject cells =
       Inr [(''mlsNumber'', Str s0), (''address'', Str s1), (''price'', Str s2),
            (''beds'', Str s3), (''baths'', Str s4), (''sqft'', Str s5)]"
proof -
  obtain s0 where f0: "cellField cells 0 = Inr (Str s0)" using cellField_string by blast
  obtain s1 where f1: "cellField cells 1 = Inr (Str s1)" using cellField_string by blast
  obtain s2 where f2: "cellField cells 2 = Inr (Str s2)" using cellField_string by blast
  obtain s3 where f3: "cellField cells 3 = Inr (Str s3)" using cellField_string by blast
  obtain s4 where f4: "cellField cells 4 = Inr (Str s4)" using cellField_string by blast
  obtain s5 where f5: "cellField cells 5 = Inr (Str s5)" using cellField_string by blast
  have "rowObject cells =
       Inr [(''mlsNumber'', Str s0), (''address'', Str s1), (''price'', Str s2),
            (''beds'', Str s3), (''baths'', Str s4), (''sqft'', Str s5)]"
    by (simp only: rowObject_def f0 f1 f2 f3 f4 f5 bindE_Inr)
  with f0 f1 f2 f3 f4 f5 show ?thesis by blast
qed

lemma rowObject_total: "\<exists>obj. rowObject cells = Inr obj"
  using rowObject_fields [of cells] by blast

lemma rowCallback_cells:
  assumes "querySelectorAll row tdSelector \<noteq> []"
  shows "rowCallback row data =
           bindE (rowObject (querySelectorAll row tdSelector)) (\<lambda>obj. Inr (data @ [obj]))"
  using assms by (simp add: rowCallback_def Let_def)

lemma rowCallback_no_cells:
  assumes "querySelectorAll row tdSelector = []"
  shows "rowCallback row data = Inr data"
  using assms by (simp add: rowCallback_def Let_def)

lemma forEach_append:
  "forEach (xs @ ys) f s = bindE (forEach xs f s) (forEach ys f)"
  by (induction xs arbitrary: s) (simp_all add: bindE_def split: sum.splits)

text \<open>
  The loop pushes, for the rows that have a cell and in their order, the
  object of each; it never throws.
\<close>

lemma forEach_rowCallback:
  "\<exists>objs. forEach rows rowCallback data = Inr (data @ objs) \<and>
          list_all2 (\<lambda>row obj. rowObject (querySelectorAll row tdSelector) = Inr obj)
            (filter (\<lambda>row. querySelectorAll row tdSelector \<noteq> []) rows) objs"
proof (induction rows arbitrary: data)
  case Nil
  then show ?case by simp
next
  case (Cons row rows)
  show ?case
  proof (cases "querySelectorAll row tdSelector = []")
    case True
    then show ?thesis
      using Cons.IH [of data] by (simp add: rowCallback_no_cells bindE_Inr)
  next
    case False
    obtain obj where obj: "rowObject (querySelectorAll row tdSelector) = Inr obj"
      using rowObject_total by blast
    obtain objs where objs: "forEach rows rowCallback (data @ [obj]) = Inr ((data @ [obj]) @ objs)"
      "list_all2 (\<lambda>row obj. rowObject (querySelectorAll row tdSelector) = Inr obj)
            (filter (\<lambda>row. querySelectorAll row tdSelector \<noteq> []) rows) objs"
      using Cons.IH [of "data @ [obj]"] by blast
    have "forEach (row # rows) rowCallback data = Inr (data @ (obj # objs))"
      using False obj objs(1) by (simp add: rowCallback_cells bindE_Inr)
    moreover have "list_all2 (\<lambda>row obj. rowObject (querySelectorAll row tdSelector) = Inr obj)
            (filter (\<lambda>row. querySelectorAll row tdSelector \<noteq> []) (row # rows)) (obj # objs)"
      using False obj objs(2) by simp
    ultimately show ?thesis by blast
  qed
qed

subsection \<open>Trimming\<close>

lemma isWhiteSpace_takeWhile: "\<forall>c\<in>set (takeWhile isWhiteSpace s). isWhiteSpace c"
  by (auto dest: set_takeWhileD)

text \<open>
  \<open>trim s\<close> is \<open>s\<close> without a leading and a trailing run of white space, and
  neither begins nor ends with white space.
\<close>

lemma trim_decomposition:
  "\<exists>l r. s = l @ trim s @ r \<and> (\<forall>c\<in>set l. isWhiteSpace c) \<and> (\<forall>c\<in>set r. isWhiteSpace c) \<and>
         (trim s = [] \<or> (\<not> isWhiteSpace (hd (trim s)) \<and> \<not> isWhiteSpace (last (trim s))))"
proof -
  define l where "l = takeWhile isWhiteSpace s"
  define d where "d = dropWhile isWhiteSpace s"
  define r where "r = rev (takeWhile isWhiteSpace (rev d))"
  have t: "trim s = rev (dropWhile isWhiteSpace (rev d))"
    by (simp add: trim_def trimStart_def trimEnd_def d_def)
  have "rev (takeWhile isWhiteSpace (rev d) @ dropWhile isWhiteSpace (rev d)) = d"
    by (simp only: takeWhile_dropWhile_id rev_rev_ident)
  then have d_split: "d = trim s @ r"
    by (simp only: rev_append t r_def)
  have "s = l @ d"
    by (simp add: l_def d_def)
  then have s_split: "s = l @ trim s @ r"
    using d_split by simp
  have wl: "\<forall>c\<in>set l. isWhiteSpace c"
    unfolding l_def by (rule isWhiteSpace_takeWhile)
  have wr: "\<forall>c\<in>set r. isWhiteSpace c"
    unfolding r_def using isWhiteSpace_takeWhile [of "rev d"] by simp
  have ends: "\<not> isWhiteSpace (hd (trim s)) \<and> \<not> isWhiteSpace (last (trim s))" if ne: "trim s \<noteq> []"
  proof
    have "d \<noteq> []" using ne d_split by auto
    then have "\<not> isWhiteSpace (hd d)"
      unfolding d_def by (rule hd_dropWhile)
    moreover have "hd d = hd (trim s)"
      using ne d_split by (metis hd_append2)
    ultimately show "\<not> isWhiteSpace (hd (trim s))" by simp
    have "dropWhile isWhiteSpace (rev d) \<noteq> []" using ne t by simp
    then have "\<not> isWhiteSpace (hd (dropWhile isWhiteSpace (rev d)))"
      by (rule hd_dropWhile)
    then show "\<not> isWhiteSpace (last (trim s))"
      using ne by (simp add: t last_rev)
  qed
  from s_split wl wr ends show ?thesis by blast
qed

subsection \<open>What a query returns\<close>

lemma matches_isElement: "matches sel nd \<Longrightarrow> isElement nd"
  by (cases sel; cases nd) simp_all

lemma querySelectorAll_isElement: "nd \<in> set (querySelectorAll scope sel) \<Longrightarrow> isElement nd"
  using matches_isElement by (auto simp: querySelectorAll_def)

lemma textContent_isElement: "isElement nd \<Longrightarrow> textContent nd = Str (descendantText nd)"
  by (cases nd) simp_all

subsection \<open>The example pages, evaluated\<close>

lemma exampleRow_cells:
  "querySelectorAll exampleRow tdSelector =
     map exampleCell [''M123'', ''1 Main St'', ''$500,000'', ''3'', ''2'', ''1500'']"
  by (simp add: querySelectorAll_def exampleRow_def tdSelector_def exampleCell_def js_def)

lemma paddedRow_cells:
  "querySelectorAll paddedRow tdSelector = [exampleCell '' M1 '', exampleCell ''1 Main St'']"
  by (simp add: querySelectorAll_def paddedRow_def tdSelector_def exampleCell_def js_def)

lemma cellLessRow_cells: "querySelectorAll cellLessRow tdSelector = []"
  by (simp add: querySelectorAll_def cellLessRow_def tdSelector_def js_def)


lemma examplePage_rows:
  "querySelectorAll examplePage resultRowSelector = [exampleRow, cellLessRow, paddedRow]"
  by (simp add: querySelectorAll_def examplePage_def cellLessRow_def exampleRow_def
      paddedRow_def exampleCell_def resultRowSelector_def js_def)


lemma textContent_exampleCell: "textContent (exampleCell t) = Str (js t)"
  by (simp add: exampleCell_def)

lemma trim_examples:
  "trim (js ''M123'') = js ''M123''"
  "trim (js ''1 Main St'') = js ''1 Main St''"
  "trim (js ''$500,000'') = js ''$500,000''"
  "trim (js ''3'') = js ''3''"
  "trim (js ''2'') = js ''2''"
  "trim (js ''1500'') = js ''1500''"
  "trim (js '' M1 '') = js ''M1''"
  by (simp_all add: trim_def trimStart_def trimEnd_def js_def isWhiteSpace_def)

lemma rowCallback_cellLessRow: "rowCallback cellLessRow data = Inr data"
  by (simp add: rowCallback_no_cells cellLessRow_cells)

lemma rowObject_paddedRow:
  "rowObject (querySelectorAll paddedRow tdSelector) =
     Inr [(''mlsNumber'', Str (js ''M1'')), (''address'', Str (js ''1 Main St'')),
          (''price'', Str []), (''beds'', Str []), (''baths'', Str []), (''sqft'', Str [])]"
  by (simp add: paddedRow_cells rowObject_def cellField_absent cellField_present bindE_Inr
      textContent_exampleCell trim_examples)

lemma rowObject_exampleRow:
  "rowObject (querySelectorAll exampleRow tdSelector) =
     Inr [(''mlsNumber'', Str (js ''M123'')), (''address'', Str (js ''1 Main St'')),
          (''price'', Str (js ''$500,000'')), (''beds'', Str (js ''3'')),
          (''baths'', Str (js ''2'')), (''sqft'', Str (js ''1500''))]"
  by (simp add: exampleRow_cells rowObject_def cellField_present bindE_Inr
      textContent_exampleCell trim_examples)

lemma rowExtractor_examplePage:
  "rowExtractor examplePage =
     Inr [[(''mlsNumber'', Str (js ''M123'')), (''address'', Str (js ''1 Main St'')),
           (''price'', Str (js ''$500,000'')), (''beds'', Str (js ''3'')),
           (''baths'', Str (js ''2'')), (''sqft'', Str (js ''1500''))],
          [(''mlsNumber'', Str (js ''M1'')), (''address'', Str (js ''1 Main St'')),
           (''price'', Str []), (''beds'', Str []), (''baths'', Str []), (''sqft'', Str [])]]"
  by (simp add: rowExtractor_def examplePage_rows rowCallback_cellLessRow bindE_Inr
      rowCallback_cells exampleRow_cells paddedRow_cells
      rowObject_exampleRow [unfolded exampleRow_cells, simplified]
      rowObject_paddedRow [unfolded paddedRow_cells])

lemma list_all2_right_partner:
  "list_all2 P xs ys \<Longrightarrow> y \<in> set ys \<Longrightarrow> \<exists>x\<in>set xs. P x y"
  by (induction rule: list_all2_induct) auto

lemma rowObject_nth:
  assumes "i < 6"
  shows "\<exists>obj. rowObject cells = Inr obj \<and>
           map fst obj = [''mlsNumber'', ''address'', ''price'', ''beds'', ''baths'', ''sqft''] \<and>
           cellField cells i = Inr (snd (obj ! i))"
proof -
  obtain s0 s1 s2 s3 s4 s5 where
    f: "cellField cells 0 = Inr (Str s0)" "cellField cells 1 = Inr (Str s1)"
       "cellField cells 2 = Inr (Str s2)" "cellField cells 3 = Inr (Str s3)"
       "cellField cells 4 = Inr (Str s4)" "cellField cells 5 = Inr (Str s5)"
    and obj: "rowObject cells =
       Inr [(''mlsNumber'', Str s0), (''address'', Str s1), (''price'', Str s2),
            (''beds'', Str s3), (''baths'', Str s4), (''sqft'', Str s5)]"
    using rowObject_fields [of cells] by blast
  from assms have "i = 0 \<or> i = 1 \<or> i = 2 \<or> i = 3 \<or> i = 4 \<or> i = 5" by arith
  then have "cellField cells i =
      Inr (snd ([(''mlsNumber'', Str s0), (''address'', Str s1), (''price'', Str s2),
            (''beds'', Str s3), (''baths'', Str s4), (''sqft'', Str s5)] ! i))"
    using f by (elim disjE) simp_all
  with obj show ?thesis by simp
qed

section \<open>One record per row\<close>




section \<open>No matching row\<close>



section \<open>Rows without cells\<close>

text \<open>
  C9: a row that matches the marker and has no \<^verbatim>\<open>td\<close> descendant pushes
  nothing: the callback leaves the array as it is (in particular it does not
  push a record of six empty strings), and the loop over the rows gives the
  same result as if the row were not there.
\<close>

theorem row_without_cells_is_skipped:
  assumes "matches resultRowSelector row" and "querySelectorAll row tdSelector = []"
  shows "rowCallback row data = Inr data \<and>
         rowCallback row data \<noteq>
           Inr (data @ [[(''mlsNumber'', Str []), (''address'', Str []), (''price'', Str []),
                         (''beds'', Str []), (''baths'', Str []), (''sqft'', Str [])]]) \<and>
         forEach (before @ row # after) rowCallback data =
           forEach (before @ after) rowCallback data"
proof -
  have skip: "rowCallback row s = Inr s" for s
    using assms(2) by (rule rowCallback_no_cells)
  have "forEach (row # after) rowCallback = forEach after rowCallback"
    by (rule ext) (simp add: skip bindE_Inr)
  then have "forEach (before @ row # after) rowCallback data =
             forEach (before @ after) rowCallback data"
    by (simp only: forEach_append [of before] ) 
  with skip show ?thesis by simp
qed

theorem row_without_cells_is_skipped_witness:
  "matches resultRowSelector cellLessRow \<and> querySelectorAll cellLessRow tdSelector = [] \<and>
   rowCallback cellLessRow [] = Inr [] \<and>
   forEach ([exampleRow] @ cellLessRow # [paddedRow]) rowCallback [] =
     forEach ([exampleRow] @ [paddedRow]) rowCallback []"
  using row_without_cells_is_skipped [of cellLessRow "[]" "[exampleRow]" "[paddedRow]"]
  by (simp add: cellLessRow_cells) (simp add: cellLessRow_def resultRowSelector_def js_def)

section \<open>Totality\<close>



section \<open>Shape of a record\<close>

text \<open>
  C8: every record the extractor returns has exactly the six properties
  mlsNumber, address, price, beds, baths and sqft, in this order, and the
  value of each is a string.
\<close>

theorem record_has_six_string_fields:
  assumes "rowExtractor document = Inr recs" and "obj \<in> set recs"
  shows "\<exists>s0 s1 s2 s3 s4 s5.
           obj = [(''mlsNumber'', Str s0), (''address'', Str s1), (''price'', Str s2),
                  (''beds'', Str s3), (''baths'', Str s4), (''sqft'', Str s5)]"
proof -
  obtain objs where objs:
    "forEach (querySelectorAll document resultRowSelector) rowCallback [] = Inr ([] @ objs)"
    "list_all2 (\<lambda>row obj. rowObject (querySelectorAll row tdSelector) = Inr obj)
       (filter (\<lambda>row. querySelectorAll row tdSelector \<noteq> [])
          (querySelectorAll document resultRowSelector)) objs"
    using forEach_rowCallback [of "querySelectorAll document resultRowSelector" "[]"] by blast
  from objs(1) assms(1) have "recs = objs"
    by (simp add: rowExtractor_def)
  with assms(2) have "obj \<in> set objs" by simp
  from list_all2_right_partner [OF objs(2) this]
  obtain row where row: "rowObject (querySelectorAll row tdSelector) = Inr obj" by blast
  obtain s0 s1 s2 s3 s4 s5 where
    "rowObject (querySelectorAll row tdSelector) =
       Inr [(''mlsNumber'', Str s0), (''address'', Str s1), (''price'', Str s2),
            (''beds'', Str s3), (''baths'', Str s4), (''sqft'', Str s5)]"
    using rowObject_fields [of "querySelectorAll row tdSelector"] by blast
  with row have "obj = [(''mlsNumber'', Str s0), (''address'', Str s1), (''price'', Str s2),
            (''beds'', Str s3), (''baths'', Str s4), (''sqft'', Str s5)]"
    by simp
  then show ?thesis by blast
qed

theorem record_has_six_string_fields_witness:
  "rowExtractor examplePage =
     Inr [[(''mlsNumber'', Str (js ''M123'')), (''address'', Str (js ''1 Main St'')),
           (''price'', Str (js ''$500,000'')), (''beds'', Str (js ''3'')),
           (''baths'', Str (js ''2'')), (''sqft'', Str (js ''1500''))],
          [(''mlsNumber'', Str (js ''M1'')), (''address'', Str (js ''1 Main St'')),
           (''price'', Str []), (''beds'', Str []), (''baths'', Str []), (''sqft'', Str [])]] \<and>
   (\<exists>s0 s1 s2 s3 s4 s5.
      [(''mlsNumber'', Str (js ''M1'')), (''address'', Str (js ''1 Main St'')),
       (''price'', Str []), (''beds'', Str []), (''baths'', Str []), (''sqft'', Str [])] =
      [(''mlsNumber'', Str s0), (''address'', Str s1), (''price'', Str s2),
       (''beds'', Str s3), (''baths'', Str s4), (''sqft'', Str s5)])"
  using record_has_six_string_fields [OF rowExtractor_examplePage,
      of "[(''mlsNumber'', Str (js ''M1'')), (''address'', Str (js ''1 Main St'')),
           (''price'', Str []), (''beds'', Str []), (''baths'', Str []), (''sqft'', Str [])]"]
    rowExtractor_examplePage
  by simp

section \<open>The value of a field\<close>

text \<open>
  C3: for a row that yields a record and each field position 0 to 5: when
  the row has no cell at that position the field is the empty string; when it
  has one, the field is the cell's text without its leading and trailing
  white space (so the empty string when the text is empty).
\<close>

theorem field_is_trimmed_cell_text_or_empty:
  assumes "cells = querySelectorAll row tdSelector" and "cells \<noteq> []" and "i < 6"
  shows "\<exists>obj. rowCallback row data = Inr (data @ [obj]) \<and>
           map fst obj = [''mlsNumber'', ''address'', ''price'', ''beds'', ''baths'', ''sqft''] \<and>
           (length cells \<le> i \<longrightarrow> snd (obj ! i) = Str []) \<and>
           (i < length cells \<longrightarrow>
              (\<exists>txt l t r.
                 textContent (cells ! i) = Str txt \<and> snd (obj ! i) = Str t \<and>
                 (txt = [] \<longrightarrow> t = []) \<and>
                 txt = l @ t @ r \<and>
                 (\<forall>c\<in>set l. isWhiteSpace c) \<and> (\<forall>c\<in>set r. isWhiteSpace c) \<and>
                 (t = [] \<or> (\<not> isWhiteSpace (hd t) \<and> \<not> isWhiteSpace (last t)))))"
proof -
  from rowObject_nth [OF assms(3), of cells]
  obtain obj where all: "rowObject cells = Inr obj \<and>
      map fst obj = [''mlsNumber'', ''address'', ''price'', ''beds'', ''baths'', ''sqft''] \<and>
      cellField cells i = Inr (snd (obj ! i))" ..
  from all have obj: "rowObject cells = Inr obj" by (rule conjunct1)
  from all have names:
    "map fst obj = [''mlsNumber'', ''address'', ''price'', ''beds'', ''baths'', ''sqft'']"
    by simp
  from all have field: "cellField cells i = Inr (snd (obj ! i))"
    by simp
  have pushed: "rowCallback row data = Inr (data @ [obj])"
    using assms(1,2) obj by (simp add: rowCallback_cells bindE_Inr)
  have absent: "snd (obj ! i) = Str []" if "length cells \<le> i"
    using that field by (simp add: cellField_absent)
  have present: "\<exists>txt l t r.
                 textContent (cells ! i) = Str txt \<and> snd (obj ! i) = Str t \<and>
                 (txt = [] \<longrightarrow> t = []) \<and>
                 txt = l @ t @ r \<and>
                 (\<forall>c\<in>set l. isWhiteSpace c) \<and> (\<forall>c\<in>set r. isWhiteSpace c) \<and>
                 (t = [] \<or> (\<not> isWhiteSpace (hd t) \<and> \<not> isWhiteSpace (last t)))"
    if "i < length cells"
  proof -
    from that assms(1) have "isElement (cells ! i)"
      using querySelectorAll_isElement [of "cells ! i" row tdSelector] by simp
    then have tcs: "textContent (cells ! i) = Str (descendantText (cells ! i))"
      by (rule textContent_isElement)
    with that field have val: "snd (obj ! i) = Str (trim (descendantText (cells ! i)))"
      by (simp add: cellField_present)
    define raw where "raw = descendantText (cells ! i)"
    from trim_decomposition [of raw]
    obtain l r where parts: "raw = l @ trim raw @ r \<and>
        (\<forall>c\<in>set l. isWhiteSpace c) \<and> (\<forall>c\<in>set r. isWhiteSpace c) \<and>
        (trim raw = [] \<or> (\<not> isWhiteSpace (hd (trim raw)) \<and> \<not> isWhiteSpace (last (trim raw))))"
      by (elim exE)
    from parts have "raw = l @ trim raw @ r" by (rule conjunct1)
    then have "raw = [] \<longrightarrow> trim raw = []" by auto
    with parts have "textContent (cells ! i) = Str raw \<and> snd (obj ! i) = Str (trim raw) \<and>
                 (raw = [] \<longrightarrow> trim raw = []) \<and>
                 raw = l @ trim raw @ r \<and>
                 (\<forall>c\<in>set l. isWhiteSpace c) \<and> (\<forall>c\<in>set r. isWhiteSpace c) \<and>
                 (trim raw = [] \<or> (\<not> isWhiteSpace (hd (trim raw)) \<and> \<not> isWhiteSpace (last (trim raw))))"
      using tcs val by (simp add: raw_def)
    then show ?thesis by (intro exI)
  qed
  show ?thesis
  proof (rule exI [where x = obj], intro conjI impI)
    show "rowCallback row data = Inr (data @ [obj])" by (rule pushed)
    show "map fst obj = [''mlsNumber'', ''address'', ''price'', ''beds'', ''baths'', ''sqft'']"
      by (rule names)
  next
    assume "length cells \<le> i"
    then show "snd (obj ! i) = Str []" by (rule absent)
  next
    assume "i < length cells"
    then show "\<exists>txt l t r.
                 textContent (cells ! i) = Str txt \<and> snd (obj ! i) = Str t \<and>
                 (txt = [] \<longrightarrow> t = []) \<and>
                 txt = l @ t @ r \<and>
                 (\<forall>c\<in>set l. isWhiteSpace c) \<and> (\<forall>c\<in>set r. isWhiteSpace c) \<and>
                 (t = [] \<or> (\<not> isWhiteSpace (hd t) \<and> \<not> isWhiteSpace (last t)))"
      by (rule present)
  qed
qed

theorem field_is_trimmed_cell_text_or_empty_witness:
  "[exampleCell '' M1 '', exampleCell ''1 Main St''] = querySelectorAll paddedRow tdSelector \<and>
   (0::nat) < 6 \<and>
   (\<exists>obj. rowCallback paddedRow [] = Inr [obj] \<and>
      (\<exists>l t r. snd (obj ! 0) = Str t \<and> js '' M1 '' = l @ t @ r \<and>
         (\<forall>c\<in>set l. isWhiteSpace c) \<and> (\<forall>c\<in>set r. isWhiteSpace c) \<and>
         (t = [] \<or> (\<not> isWhiteSpace (hd t) \<and> \<not> isWhiteSpace (last t)))))"
  using field_is_trimmed_cell_text_or_empty
    [of "[exampleCell '' M1 '', exampleCell ''1 Main St'']" paddedRow 0 "[]"]
  by (simp add: paddedRow_cells textContent_exampleCell) blast

section \<open>The two example rows\<close>

text \<open>
  C4, as stated, fails in its second half: the fields of a two-cell row are
  the trimmed texts of the cells, not the texts. The first cell of
  \<open>paddedRow\<close> has the text \<^verbatim>\<open>" M1 "\<close>, and the record's mlsNumber is
  \<^verbatim>\<open>"M1"\<close>.
\<close>

theorem two_cell_row_counterexample:
  "querySelectorAll paddedRow tdSelector = [exampleCell '' M1 '', exampleCell ''1 Main St''] \<and>
   textContent (exampleCell '' M1 '') = Str (js '' M1 '') \<and>
   textContent (exampleCell ''1 Main St'') = Str (js ''1 Main St'') \<and>
   rowCallback paddedRow [] =
     Inr [[(''mlsNumber'', Str (js ''M1'')), (''address'', Str (js ''1 Main St'')),
           (''price'', Str []), (''beds'', Str []), (''baths'', Str []), (''sqft'', Str [])]] \<and>
   rowCallback paddedRow [] \<noteq>
     Inr [[(''mlsNumber'', Str (js '' M1 '')), (''address'', Str (js ''1 Main St'')),
           (''price'', Str []), (''beds'', Str []), (''baths'', Str []), (''sqft'', Str [])]]"
proof -
  have "rowCallback paddedRow [] =
     Inr [[(''mlsNumber'', Str (js ''M1'')), (''address'', Str (js ''1 Main St'')),
           (''price'', Str []), (''beds'', Str []), (''baths'', Str []), (''sqft'', Str [])]]"
    by (simp add: rowCallback_cells paddedRow_cells bindE_Inr
        rowObject_paddedRow [unfolded paddedRow_cells])
  moreover have "js ''M1'' \<noteq> js '' M1 ''"
    by (simp add: js_def)
  ultimately show ?thesis
    by (simp add: paddedRow_cells textContent_exampleCell)
qed

text \<open>
  C4, amended: a row whose six cells have the texts M123, 1 Main St,
  $500,000, 3, 2 and 1500 yields the record with these six values; a row with
  exactly two cells yields the record whose mlsNumber and address are the
  trimmed texts of the two cells and whose other four fields are empty
  strings.
\<close>

theorem example_rows:
  "(map textContent (querySelectorAll row tdSelector) =
      [Str (js ''M123''), Str (js ''1 Main St''), Str (js ''$500,000''),
       Str (js ''3''), Str (js ''2''), Str (js ''1500'')] \<longrightarrow>
    rowCallback row data =
      Inr (data @ [[(''mlsNumber'', Str (js ''M123'')), (''address'', Str (js ''1 Main St'')),
                    (''price'', Str (js ''$500,000'')), (''beds'', Str (js ''3'')),
                    (''baths'', Str (js ''2'')), (''sqft'', Str (js ''1500''))]])) \<and>
   (querySelectorAll row tdSelector = [c0, c1] \<longrightarrow>
    (\<exists>t0 t1. textContent c0 = Str t0 \<and> textContent c1 = Str t1 \<and>
       rowCallback row data =
         Inr (data @ [[(''mlsNumber'', Str (trim t0)), (''address'', Str (trim t1)),
                       (''price'', Str []), (''beds'', Str []),
                       (''baths'', Str []), (''sqft'', Str [])]])))"
proof (intro conjI impI)
  assume texts: "map textContent (querySelectorAll row tdSelector) =
      [Str (js ''M123''), Str (js ''1 Main St''), Str (js ''$500,000''),
       Str (js ''3''), Str (js ''2''), Str (js ''1500'')]"
  define cells where "cells = querySelectorAll row tdSelector"
  from texts have "length (map textContent cells) = 6"
    by (simp add: cells_def)
  then have len: "length cells = 6" by simp
  have tc: "textContent (cells ! k) =
      [Str (js ''M123''), Str (js ''1 Main St''), Str (js ''$500,000''),
       Str (js ''3''), Str (js ''2''), Str (js ''1500'')] ! k" if "k < 6" for k
    using texts len that nth_map [of k cells textContent] by (simp add: cells_def)
  have f0: "cellField cells 0 = Inr (Str (js ''M123''))"
    using len tc [of 0] by (simp add: cellField_present trim_examples)
  have f1: "cellField cells 1 = Inr (Str (js ''1 Main St''))"
    using len tc [of 1] by (simp add: cellField_present trim_examples)
  have f2: "cellField cells 2 = Inr (Str (js ''$500,000''))"
    using len tc [of 2] by (simp add: cellField_present trim_examples)
  have f3: "cellField cells 3 = Inr (Str (js ''3''))"
    using len tc [of 3] by (simp add: cellField_present trim_examples)
  have f4: "cellField cells 4 = Inr (Str (js ''2''))"
    using len tc [of 4] by (simp add: cellField_present trim_examples)
  have f5: "cellField cells 5 = Inr (Str (js ''1500''))"
    using len tc [of 5] by (simp add: cellField_present trim_examples)
  have obj: "rowObject cells =
      Inr [(''mlsNumber'', Str (js ''M123'')), (''address'', Str (js ''1 Main St'')),
           (''price'', Str (js ''$500,000'')), (''beds'', Str (js ''3'')),
           (''baths'', Str (js ''2'')), (''sqft'', Str (js ''1500''))]"
    by (simp only: rowObject_def f0 f1 f2 f3 f4 f5 bindE_Inr)
  from len have "querySelectorAll row tdSelector \<noteq> []"
    by (auto simp: cells_def)
  then show "rowCallback row data =
      Inr (data @ [[(''mlsNumber'', Str (js ''M123'')), (''address'', Str (js ''1 Main St'')),
                    (''price'', Str (js ''$500,000'')), (''beds'', Str (js ''3'')),
                    (''baths'', Str (js ''2'')), (''sqft'', Str (js ''1500''))]])"
    using obj by (simp add: rowCallback_cells bindE_Inr cells_def)
next
  assume two: "querySelectorAll row tdSelector = [c0, c1]"
  have "isElement c0" "isElement c1"
    using querySelectorAll_isElement [of c0 row tdSelector]
      querySelectorAll_isElement [of c1 row tdSelector] two by simp_all
  then have tcs: "textContent c0 = Str (descendantText c0)" "textContent c1 = Str (descendantText c1)"
    by (simp_all add: textContent_isElement)
  have "rowCallback row data =
         Inr (data @ [[(''mlsNumber'', Str (trim (descendantText c0))),
                       (''address'', Str (trim (descendantText c1))),
                       (''price'', Str []), (''beds'', Str []),
                       (''baths'', Str []), (''sqft'', Str [])]])"
    by (simp add: rowCallback_cells two rowObject_def cellField_absent cellField_present
        bindE_Inr tcs)
  with tcs show "\<exists>t0 t1. textContent c0 = Str t0 \<and> textContent c1 = Str t1 \<and>
       rowCallback row data =
         Inr (data @ [[(''mlsNumber'', Str (trim t0)), (''address'', Str (trim t1)),
                       (''price'', Str []), (''beds'', Str []),
                       (''baths'', Str []), (''sqft'', Str [])]])"
    by blast
qed


theorem example_rows_witness:
  "map textContent (querySelectorAll exampleRow tdSelector) =
      [Str (js ''M123''), Str (js ''1 Main St''), Str (js ''$500,000''),
       Str (js ''3''), Str (js ''2''), Str (js ''1500'')] \<and>
   rowCallback exampleRow [] =
      Inr [[(''mlsNumber'', Str (js ''M123'')), (''address'', Str (js ''1 Main St'')),
            (''price'', Str (js ''$500,000'')), (''beds'', Str (js ''3'')),
            (''baths'', Str (js ''2'')), (''sqft'', Str (js ''1500''))]] \<and>
   querySelectorAll paddedRow tdSelector = [exampleCell '' M1 '', exampleCell ''1 Main St''] \<and>
   rowCallback paddedRow [] =
      Inr [[(''mlsNumber'', Str (trim (js '' M1 ''))), (''address'', Str (trim (js ''1 Main St''))),
            (''price'', Str []), (''beds'', Str []), (''baths'', Str []), (''sqft'', Str [])]]"
  using example_rows [of exampleRow "[]"]
    example_rows [of paddedRow "[]" "exampleCell '' M1 ''" "exampleCell ''1 Main St''"]
  by (simp add: exampleRow_cells paddedRow_cells textContent_exampleCell)

section \<open>Runs of the script\<close>

lemma bindIO_consoleLog: "bindIO (consoleLog m) f t = f () (t @ [ConsoleLog m])"
  by (simp add: bindIO_def consoleLog_def)

lemma consoleLog_run: "consoleLog m t = (Inr (), t @ [ConsoleLog m])"
  by (simp add: consoleLog_def)

lemma bindIO_await_ok: "bindIO (await ev None) f t = f () (t @ [ev])"
  by (simp add: bindIO_def await_def)

lemma bindIO_await_fails: "bindIO (await ev (Some e)) f t = (Inl e, t @ [ev])"
  by (simp add: bindIO_def await_def)

lemma await_ok: "await ev None t = (Inr (), t @ [ev])"
  by (simp add: await_def)

lemma await_fails: "await ev (Some e) t = (Inl e, t @ [ev])"
  by (simp add: await_def)

lemma bindIO_evaluate_fails:
  "evaluateOutcome w = Some e \<Longrightarrow> bindIO (evaluate w) f t = (Inl e, t @ [Evaluate])"
  by (simp add: bindIO_def evaluate_def)

lemma bindIO_evaluate_ok:
  "evaluateOutcome w = None \<Longrightarrow> rowExtractor (pageDocument w) = Inr recs \<Longrightarrow>
   bindIO (evaluate w) f t = f recs (t @ [Evaluate])"
  by (simp add: bindIO_def evaluate_def)

lemma tryBody_goto_fails:
  assumes "gotoOutcome w = Some e"
  shows "tryBody w t = (Inl e, t @ [ConsoleLog GoingToLogin, Goto loginUrl])"
  using assms by (simp add: tryBody_def bindIO_consoleLog bindIO_await_fails)

lemma tryBody_waitForSelector_fails:
  assumes "gotoOutcome w = None" "waitForSelectorOutcome w = Some e"
  shows "tryBody w t =
    (Inl e, t @ [ConsoleLog GoingToLogin, Goto loginUrl, WaitForSelector ''#Username'' 10000])"
  using assms
  by (simp add: tryBody_def bindIO_consoleLog bindIO_await_fails bindIO_await_ok)

lemma tryBody_loginWait_fails:
  assumes "gotoOutcome w = None" "waitForSelectorOutcome w = None" "loginWaitOutcome w = Some e"
  shows "tryBody w t =
    (Inl e, t @ [ConsoleLog GoingToLogin, Goto loginUrl, WaitForSelector ''#Username'' 10000,
                 ConsoleLog EnterCredentials, ConsoleLog ThirtySecondsToLogIn,
                 WaitForTimeout 30000])"
  using assms
  by (simp add: tryBody_def bindIO_consoleLog bindIO_await_fails bindIO_await_ok)

lemma tryBody_searchWait_fails:
  assumes "gotoOutcome w = None" "waitForSelectorOutcome w = None" "loginWaitOutcome w = None"
    "searchWaitOutcome w = Some e"
  shows "tryBody w t =
    (Inl e, t @ [ConsoleLog GoingToLogin, Goto loginUrl, WaitForSelector ''#Username'' 10000,
                 ConsoleLog EnterCredentials, ConsoleLog ThirtySecondsToLogIn,
                 WaitForTimeout 30000, ConsoleLog LookingForSearch,
                 ConsoleLog NavigateManually, ConsoleLog TwentySeconds,
                 WaitForTimeout 20000])"
  using assms
  by (simp add: tryBody_def bindIO_consoleLog bindIO_await_fails bindIO_await_ok)

lemma tryBody_evaluate_fails:
  assumes "gotoOutcome w = None" "waitForSelectorOutcome w = None" "loginWaitOutcome w = None"
    "searchWaitOutcome w = None" "evaluateOutcome w = Some e"
  shows "tryBody w t =
    (Inl e, t @ [ConsoleLog GoingToLogin, Goto loginUrl, WaitForSelector ''#Username'' 10000,
                 ConsoleLog EnterCredentials, ConsoleLog ThirtySecondsToLogIn,
                 WaitForTimeout 30000, ConsoleLog LookingForSearch,
                 ConsoleLog NavigateManually, ConsoleLog TwentySeconds,
                 WaitForTimeout 20000, ConsoleLog ExtractingData, Evaluate])"
  using assms
  by (simp add: tryBody_def bindIO_consoleLog bindIO_await_fails bindIO_await_ok
      bindIO_evaluate_fails)

lemma tryBody_succeeds:
  assumes "gotoOutcome w = None" "waitForSelectorOutcome w = None" "loginWaitOutcome w = None"
    "searchWaitOutcome w = None" "evaluateOutcome w = None"
    "rowExtractor (pageDocument w) = Inr recs"
  shows "tryBody w t =
    (Inr (), t @ [ConsoleLog GoingToLogin, Goto loginUrl, WaitForSelector ''#Username'' 10000,
                 ConsoleLog EnterCredentials, ConsoleLog ThirtySecondsToLogIn,
                 WaitForTimeout 30000, ConsoleLog LookingForSearch,
                 ConsoleLog NavigateManually, ConsoleLog TwentySeconds,
                 WaitForTimeout 20000, ConsoleLog ExtractingData, Evaluate,
                 ConsoleLog (Found (length recs)), ConsoleLog (SampleData (take 3 recs))])"
  using assms
  by (simp add: tryBody_def bindIO_consoleLog bindIO_await_fails bindIO_await_ok
      bindIO_evaluate_ok consoleLog_run)

lemma finallyBlock_run:
  "finallyBlock w t =
     (case cleanupWaitOutcome w of
        Some e \<Rightarrow> (Inl e, t @ [ConsoleLog KeepingOpen, WaitForTimeout 30000])
      | None \<Rightarrow> (case closeOutcome w of None \<Rightarrow> Inr () | Some e \<Rightarrow> Inl e,
                 t @ [ConsoleLog KeepingOpen, WaitForTimeout 30000, Close]))"
  by (cases "cleanupWaitOutcome w"; cases "closeOutcome w")
    (simp_all add: finallyBlock_def bindIO_consoleLog bindIO_await_fails bindIO_await_ok
      await_ok await_fails)

lemma run_launch_fails:
  assumes "launchOutcome w = Some e"
  shows "scrapeMatrixMLS w = (Inl e, [ConsoleLog Starting, Launch False 1000])"
  using assms by (simp add: scrapeMatrixMLS_def bindIO_consoleLog bindIO_await_fails)

lemma run_newPage_fails:
  assumes "launchOutcome w = None" "newPageOutcome w = Some e"
  shows "scrapeMatrixMLS w = (Inl e, [ConsoleLog Starting, Launch False 1000, NewPage])"
  using assms
  by (simp add: scrapeMatrixMLS_def bindIO_consoleLog bindIO_await_fails bindIO_await_ok)

text \<open>Once the page exists, the run is the try statement; its trace is the trace of the
  body, the error printed by the handler if the body threw, and the trace of the finally block.\<close>

lemma trace_entered:
  assumes "launchOutcome w = None" "newPageOutcome w = None"
    and "tryBody w [ConsoleLog Starting, Launch False 1000, NewPage] = (r, t1)"
  shows "trace w =
     t1 @ (case r of Inl e \<Rightarrow> [ConsoleError e] | Inr v \<Rightarrow> []) @
     [ConsoleLog KeepingOpen, WaitForTimeout 30000] @
     (if cleanupWaitOutcome w = None then [Close] else [])"
  using assms
  by (simp add: trace_def scrapeMatrixMLS_def bindIO_consoleLog bindIO_await_ok
      tryCatchFinally_def finallyBlock_run consoleError_def split: sum.splits option.splits)

lemma result_entered:
  assumes "launchOutcome w = None" "newPageOutcome w = None"
    and "cleanupWaitOutcome w = None" "closeOutcome w = None"
  shows "fst (scrapeMatrixMLS w) = Inr ()"
  using assms
  by (simp add: scrapeMatrixMLS_def bindIO_consoleLog bindIO_await_ok
      tryCatchFinally_def finallyBlock_run consoleError_def split: sum.splits option.splits prod.splits)


lemma trace_launch_fails:
  "launchOutcome w = Some e \<Longrightarrow> trace w = [ConsoleLog Starting, Launch False 1000]"
  by (simp add: trace_def run_launch_fails)

lemma trace_newPage_fails:
  "launchOutcome w = None \<Longrightarrow> newPageOutcome w = Some e \<Longrightarrow>
   trace w = [ConsoleLog Starting, Launch False 1000, NewPage]"
  by (simp add: trace_def run_newPage_fails)

text \<open>The six ways a run goes once the page exists.\<close>

lemma trace_entered_cases:
  assumes "launchOutcome w = None" and "newPageOutcome w = None"
  obtains
    (goto) e where "gotoOutcome w = Some e"
      "trace w =
         [ConsoleLog Starting, Launch False 1000, NewPage,
          ConsoleLog GoingToLogin, Goto loginUrl, ConsoleError e,
          ConsoleLog KeepingOpen, WaitForTimeout 30000] @
         (if cleanupWaitOutcome w = None then [Close] else [])"
  | (selector) e where "gotoOutcome w = None" "waitForSelectorOutcome w = Some e"
      "trace w =
         [ConsoleLog Starting, Launch False 1000, NewPage,
          ConsoleLog GoingToLogin, Goto loginUrl, WaitForSelector ''#Username'' 10000,
          ConsoleError e,
          ConsoleLog KeepingOpen, WaitForTimeout 30000] @
         (if cleanupWaitOutcome w = None then [Close] else [])"
  | (login) e where "gotoOutcome w = None" "waitForSelectorOutcome w = None"
      "loginWaitOutcome w = Some e"
      "trace w =
         [ConsoleLog Starting, Launch False 1000, NewPage,
          ConsoleLog GoingToLogin, Goto loginUrl, WaitForSelector ''#Username'' 10000,
          ConsoleLog EnterCredentials, ConsoleLog ThirtySecondsToLogIn,
          WaitForTimeout 30000, ConsoleError e,
          ConsoleLog KeepingOpen, WaitForTimeout 30000] @
         (if cleanupWaitOutcome w = None then [Close] else [])"
  | (search) e where "gotoOutcome w = None" "waitForSelectorOutcome w = None"
      "loginWaitOutcome w = None" "searchWaitOutcome w = Some e"
      "trace w =
         [ConsoleLog Starting, Launch False 1000, NewPage,
          ConsoleLog GoingToLogin, Goto loginUrl, WaitForSelector ''#Username'' 10000,
          ConsoleLog EnterCredentials, ConsoleLog ThirtySecondsToLogIn,
          WaitForTimeout 30000, ConsoleLog LookingForSearch,
          ConsoleLog NavigateManually, ConsoleLog TwentySeconds,
          WaitForTimeout 20000, ConsoleError e,
          ConsoleLog KeepingOpen, WaitForTimeout 30000] @
         (if cleanupWaitOutcome w = None then [Close] else [])"
  | (extraction) e where "gotoOutcome w = None" "waitForSelectorOutcome w = None"
      "loginWaitOutcome w = None" "searchWaitOutcome w = None" "evaluateOutcome w = Some e"
      "trace w =
         [ConsoleLog Starting, Launch False 1000, NewPage,
          ConsoleLog GoingToLogin, Goto loginUrl, WaitForSelector ''#Username'' 10000,
          ConsoleLog EnterCredentials, ConsoleLog ThirtySecondsToLogIn,
          WaitForTimeout 30000, ConsoleLog LookingForSearch,
          ConsoleLog NavigateManually, ConsoleLog TwentySeconds,
          WaitForTimeout 20000, ConsoleLog ExtractingData, Evaluate, ConsoleError e,
          ConsoleLog KeepingOpen, WaitForTimeout 30000] @
         (if cleanupWaitOutcome w = None then [Close] else [])"
  | (reported) recs where "gotoOutcome w = None" "waitForSelectorOutcome w = None"
      "loginWaitOutcome w = None" "searchWaitOutcome w = None" "evaluateOutcome w = None"
      "rowExtractor (pageDocument w) = Inr recs"
      "trace w =
         [ConsoleLog Starting, Launch False 1000, NewPage,
          ConsoleLog GoingToLogin, Goto loginUrl, WaitForSelector ''#Username'' 10000,
          ConsoleLog EnterCredentials, ConsoleLog ThirtySecondsToLogIn,
          WaitForTimeout 30000, ConsoleLog LookingForSearch,
          ConsoleLog NavigateManually, ConsoleLog TwentySeconds,
          WaitForTimeout 20000, ConsoleLog ExtractingData, Evaluate,
          ConsoleLog (Found (length recs)), ConsoleLog (SampleData (take 3 recs)),
          ConsoleLog KeepingOpen, WaitForTimeout 30000] @
         (if cleanupWaitOutcome w = None then [Close] else [])"
proof (cases "gotoOutcome w")
  case (Some e)
  from trace_entered [OF assms tryBody_goto_fails [OF Some]] Some show ?thesis
    by (intro goto [of e]) simp_all
next
  case g: None
  show ?thesis
  proof (cases "waitForSelectorOutcome w")
    case (Some e)
    from trace_entered [OF assms tryBody_waitForSelector_fails [OF g Some]] g Some
    show ?thesis by (intro selector [of e]) simp_all
  next
    case s: None
    show ?thesis
    proof (cases "loginWaitOutcome w")
      case (Some e)
      from trace_entered [OF assms tryBody_loginWait_fails [OF g s Some]] g s Some
      show ?thesis by (intro login [of e]) simp_all
    next
      case l: None
      show ?thesis
      proof (cases "searchWaitOutcome w")
        case (Some e)
        from trace_entered [OF assms tryBody_searchWait_fails [OF g s l Some]] g s l Some
        show ?thesis by (intro search [of e]) simp_all
      next
        case n: None
        show ?thesis
        proof (cases "evaluateOutcome w")
          case (Some e)
          from trace_entered [OF assms tryBody_evaluate_fails [OF g s l n Some]] g s l n Some
          show ?thesis by (intro extraction [of e]) simp_all
        next
          case v: None
          obtain recs where recs: "rowExtractor (pageDocument w) = Inr recs"
            using forEach_rowCallback
              [of "querySelectorAll (pageDocument w) resultRowSelector" "[]"]
            by (auto simp: rowExtractor_def)
          from trace_entered [OF assms tryBody_succeeds [OF g s l n v recs]] g s l n v recs
          show ?thesis by (intro reported [of recs]) simp_all
        qed
      qed
    qed
  qed
qed

subsection \<open>The run in which every call succeeds\<close>

lemma quietWorld_outcomes:
  "launchOutcome quietWorld = None" "newPageOutcome quietWorld = None"
  "gotoOutcome quietWorld = None" "waitForSelectorOutcome quietWorld = None"
  "loginWaitOutcome quietWorld = None" "searchWaitOutcome quietWorld = None"
  "evaluateOutcome quietWorld = None" "pageDocument quietWorld = examplePage"
  "cleanupWaitOutcome quietWorld = None" "closeOutcome quietWorld = None"
  by (simp_all add: quietWorld_def)

lemma waits_quietWorld:
  "filter isWait (trace quietWorld) =
     [WaitForSelector ''#Username'' 10000, WaitForTimeout 30000,
      WaitForTimeout 20000, WaitForTimeout 30000]"
proof -
  have "rowExtractor (pageDocument quietWorld) = Inr
          [[(''mlsNumber'', Str (js ''M123'')), (''address'', Str (js ''1 Main St'')),
           (''price'', Str (js ''$500,000'')), (''beds'', Str (js ''3'')),
           (''baths'', Str (js ''2'')), (''sqft'', Str (js ''1500''))],
          [(''mlsNumber'', Str (js ''M1'')), (''address'', Str (js ''1 Main St'')),
           (''price'', Str []), (''beds'', Str []), (''baths'', Str []), (''sqft'', Str [])]]"
    by (simp add: quietWorld_outcomes rowExtractor_examplePage)
  from trace_entered [OF quietWorld_outcomes(1,2)
      tryBody_succeeds [OF quietWorld_outcomes(3,4,5,6,7) this]]
  show ?thesis by (simp add: quietWorld_outcomes)
qed

section \<open>The waits of the script\<close>

text \<open>
  C2, as stated, fails: the first wait of a run is
  \<^verbatim>\<open>page.waitForSelector('#Username', { timeout: 10000 })\<close> (line 19), a wait for
  a selector to appear and not a timer.
\<close>

theorem every_wait_is_a_timer_counterexample:
  "filter isWait (trace quietWorld) =
     [WaitForSelector ''#Username'' 10000, WaitForTimeout 30000,
      WaitForTimeout 20000, WaitForTimeout 30000] \<and>
   \<not> isTimer (WaitForSelector ''#Username'' 10000) \<and>
   \<not> (\<forall>ev\<in>set (trace quietWorld). isWait ev \<longrightarrow> isTimer ev)"
proof -
  have "WaitForSelector ''#Username'' 10000 \<in> set (filter isWait (trace quietWorld))"
    by (simp only: waits_quietWorld list.set_intros)
  then have "WaitForSelector ''#Username'' 10000 \<in> set (trace quietWorld)"
    by simp
  moreover have "isWait (WaitForSelector ''#Username'' 10000)"
    and "\<not> isTimer (WaitForSelector ''#Username'' 10000)" by simp_all
  ultimately have "\<not> (\<forall>ev\<in>set (trace quietWorld). isWait ev \<longrightarrow> isTimer ev)"
    by blast
  then show ?thesis by (simp add: waits_quietWorld)
qed

text \<open>
  C2, amended: the waits of a run are, in order, the wait for the selector
  \<^verbatim>\<open>#Username\<close> with a timeout of 10000 ms, performed once if the browser was
  launched, the page created and the navigation done (and not at all
  otherwise), and then fixed-duration timers only, each of 20000 or 30000 ms.
\<close>

theorem waits_of_the_script:
  "filter isWait (trace w) =
     (if launchOutcome w = None \<and> newPageOutcome w = None \<and> gotoOutcome w = None
      then [WaitForSelector ''#Username'' 10000] else []) @
     filter isTimer (trace w) \<and>
   set (filter isTimer (trace w)) \<subseteq> {WaitForTimeout 20000, WaitForTimeout 30000}"
proof (cases "launchOutcome w")
  case (Some e)
  then show ?thesis by (simp add: trace_launch_fails)
next
  case launched: None
  show ?thesis
  proof (cases "newPageOutcome w")
    case (Some e)
    with launched show ?thesis by (simp add: trace_newPage_fails)
  next
    case paged: None
    show ?thesis
      by (cases rule: trace_entered_cases [OF launched paged]) (simp_all add: launched paged)
  qed
qed

theorem waits_of_the_script_witness:
  "filter isWait (trace quietWorld) =
     [WaitForSelector ''#Username'' 10000] @ filter isTimer (trace quietWorld) \<and>
   set (filter isTimer (trace quietWorld)) \<subseteq> {WaitForTimeout 20000, WaitForTimeout 30000}"
  using waits_of_the_script [of quietWorld] by (simp add: quietWorld_outcomes)


section \<open>The catch block\<close>

text \<open>
  C6: once the page exists, a failure of the navigation, of a wait of the try
  block (for the selector, for the login, for the search) or of the
  extraction is caught: it is printed with \<^verbatim>\<open>console.error\<close>, exactly once
  and nothing else is, no count and no sample of records is printed, and the
  run itself does not fail with it (it ends normally when the cleanup does).
\<close>

theorem try_body_failure_is_caught_and_printed_once:
  assumes "launchOutcome w = None" and "newPageOutcome w = None"
    and "gotoOutcome w = Some e \<or>
         (gotoOutcome w = None \<and> waitForSelectorOutcome w = Some e) \<or>
         (gotoOutcome w = None \<and> waitForSelectorOutcome w = None \<and>
          loginWaitOutcome w = Some e) \<or>
         (gotoOutcome w = None \<and> waitForSelectorOutcome w = None \<and>
          loginWaitOutcome w = None \<and> searchWaitOutcome w = Some e) \<or>
         (gotoOutcome w = None \<and> waitForSelectorOutcome w = None \<and>
          loginWaitOutcome w = None \<and> searchWaitOutcome w = None \<and>
          evaluateOutcome w = Some e)"
  shows "filter isConsoleError (trace w) = [ConsoleError e] \<and>
         filter isReport (trace w) = [] \<and>
         (cleanupWaitOutcome w = None \<and> closeOutcome w = None \<longrightarrow>
            fst (scrapeMatrixMLS w) = Inr ())"
proof -
  have "filter isConsoleError (trace w) = [ConsoleError e] \<and> filter isReport (trace w) = []"
    using assms(3)
    by (cases rule: trace_entered_cases [OF assms(1,2)]) simp_all
  then show ?thesis
    using result_entered [OF assms(1,2)] by simp
qed

theorem try_body_failure_is_caught_and_printed_once_witness:
  "launchOutcome extractionFailsWorld = None \<and> newPageOutcome extractionFailsWorld = None \<and>
   gotoOutcome extractionFailsWorld = None \<and>
   waitForSelectorOutcome extractionFailsWorld = None \<and>
   loginWaitOutcome extractionFailsWorld = None \<and>
   searchWaitOutcome extractionFailsWorld = None \<and>
   evaluateOutcome extractionFailsWorld = Some TargetClosedError \<and>
   filter isConsoleError (trace extractionFailsWorld) = [ConsoleError TargetClosedError] \<and>
   filter isReport (trace extractionFailsWorld) = [] \<and>
   fst (scrapeMatrixMLS extractionFailsWorld) = Inr ()"
  using try_body_failure_is_caught_and_printed_once [of extractionFailsWorld TargetClosedError]
  by (simp add: extractionFailsWorld_def quietWorld_def)

section \<open>The cleanup\<close>

text \<open>
  Once the page exists, the finally block is entered exactly once, after
  everything else, whether the try block succeeds or any step of it throws;
  when its wait resolves, \<^verbatim>\<open>browser.close()\<close> is called, exactly once.
\<close>

lemma finally_block_entered_once:
  assumes "launchOutcome w = None" and "newPageOutcome w = None"
  shows "(\<exists>pre. trace w =
             pre @ [ConsoleLog KeepingOpen, WaitForTimeout 30000] @
             (if cleanupWaitOutcome w = None then [Close] else []) \<and>
           ConsoleLog KeepingOpen \<notin> set pre \<and> Close \<notin> set pre) \<and>
         count_list (trace w) (ConsoleLog KeepingOpen) = 1 \<and>
         count_list (trace w) Close = (if cleanupWaitOutcome w = None then 1 else 0)"
proof -
  have "\<exists>pre. trace w =
             pre @ [ConsoleLog KeepingOpen, WaitForTimeout 30000] @
             (if cleanupWaitOutcome w = None then [Close] else []) \<and>
           ConsoleLog KeepingOpen \<notin> set pre \<and> Close \<notin> set pre"
    by (cases rule: trace_entered_cases [OF assms])
      (auto simp: append_eq_Cons_conv)
  moreover have "count_list (trace w) (ConsoleLog KeepingOpen) = 1 \<and>
         count_list (trace w) Close = (if cleanupWaitOutcome w = None then 1 else 0)"
    by (cases rule: trace_entered_cases [OF assms]) simp_all
  ultimately show ?thesis by simp
qed

lemma extraction_failure_still_closes:
  "evaluateOutcome extractionFailsWorld = Some TargetClosedError \<and>
   count_list (trace extractionFailsWorld) (ConsoleLog KeepingOpen) = 1 \<and>
   count_list (trace extractionFailsWorld) Close = 1"
  using finally_block_entered_once [of extractionFailsWorld]
  by (simp add: extractionFailsWorld_def quietWorld_def)

text \<open>
  C7: the claim is that on every run the cleanup (the final wait, then
  \<^verbatim>\<open>browser.close()\<close>) executes exactly once, so that the browser is released
  exactly once. The code does not do so on two runs. When
  \<^verbatim>\<open>browser.newPage()\<close> (line 11, outside the try statement) rejects, the
  browser was launched, the finally block is not entered and the browser is
  never closed. When every call succeeds but the final wait of line 66
  rejects, \<^verbatim>\<open>browser.close()\<close> on line 67 is not reached. The theorem evaluates
  the script on both runs: the browser is launched and closed zero times.
\<close>

theorem browser_left_open:
  "launchOutcome newPageFailsWorld = None \<and>
   newPageOutcome newPageFailsWorld = Some TargetClosedError \<and>
   trace newPageFailsWorld = [ConsoleLog Starting, Launch False 1000, NewPage] \<and>
   count_list (trace newPageFailsWorld) (Launch False 1000) = 1 \<and>
   count_list (trace newPageFailsWorld) (ConsoleLog KeepingOpen) = 0 \<and>
   count_list (trace newPageFailsWorld) Close = 0 \<and>
   launchOutcome cleanupWaitFailsWorld = None \<and>
   newPageOutcome cleanupWaitFailsWorld = None \<and>
   cleanupWaitOutcome cleanupWaitFailsWorld = Some TargetClosedError \<and>
   count_list (trace cleanupWaitFailsWorld) (Launch False 1000) = 1 \<and>
   count_list (trace cleanupWaitFailsWorld) (ConsoleLog KeepingOpen) = 1 \<and>
   count_list (trace cleanupWaitFailsWorld) Close = 0 \<and>
   fst (scrapeMatrixMLS cleanupWaitFailsWorld) = Inl TargetClosedError"
proof -
  have a: "launchOutcome newPageFailsWorld = None"
    "newPageOutcome newPageFailsWorld = Some TargetClosedError"
    by (simp_all add: newPageFailsWorld_def quietWorld_def)
  have b: "launchOutcome cleanupWaitFailsWorld = None"
    "newPageOutcome cleanupWaitFailsWorld = None"
    "cleanupWaitOutcome cleanupWaitFailsWorld = Some TargetClosedError"
    by (simp_all add: cleanupWaitFailsWorld_def quietWorld_def)
  have "count_list (trace cleanupWaitFailsWorld) (Launch False 1000) = 1 \<and>
        count_list (trace cleanupWaitFailsWorld) (ConsoleLog KeepingOpen) = 1 \<and>
        count_list (trace cleanupWaitFailsWorld) Close = 0"
    by (cases rule: trace_entered_cases [OF b(1,2)]) (simp_all add: b)
  moreover have "fst (scrapeMatrixMLS cleanupWaitFailsWorld) = Inl TargetClosedError"
    by (cases "tryBody cleanupWaitFailsWorld [ConsoleLog Starting, Launch False 1000, NewPage]")
      (simp add: scrapeMatrixMLS_def bindIO_consoleLog bindIO_await_ok b
        tryCatchFinally_def finallyBlock_run consoleError_def split: sum.splits)
  ultimately show ?thesis
    by (simp add: a b trace_newPage_fails [OF a])
qed

end
